theory Spec2Isabelle
  imports Complex_Main "HOL-Library.AList"
begin

section \<open>Python values\<close>

text \<open>
  The values that \<^verbatim>\<open>validate_input\<close> handles: the entries of the user's record
  (a \<^verbatim>\<open>dict\<close> with string keys) and what \<^verbatim>\<open>response.json()\<close> yields for a JSON
  text. A JSON number without fraction or exponent is a Python \<^verbatim>\<open>int\<close>, any other
  number a \<^verbatim>\<open>float\<close>; \<open>PFloat r\<close> is the finite float whose exact value is \<open>r\<close>
  (the literals NaN and Infinity, which are not JSON, are left out). A \<^verbatim>\<open>dict\<close> is an
  association list in insertion order; the value of a key is its first binding.
\<close>

datatype pyval =
    PNone
  | PBool bool
  | PInt int
  | PFloat rat
  | PStr string
  | PList "pyval list"
  | PDict "(string \<times> pyval) list"

type_synonym pydict = "(string \<times> pyval) list"

text \<open>\<^verbatim>\<open>d.get(k)\<close> and \<^verbatim>\<open>d.get(k, default)\<close> on a dict, and \<^verbatim>\<open>d[k] = v\<close>.\<close>

definition dict_get_default :: "pydict \<Rightarrow> string \<Rightarrow> pyval \<Rightarrow> pyval" where
  "dict_get_default d k dflt = (case map_of d k of None \<Rightarrow> dflt | Some v \<Rightarrow> v)"

definition dict_get :: "pydict \<Rightarrow> string \<Rightarrow> pyval" where
  "dict_get d k = dict_get_default d k PNone"

definition dict_set :: "pydict \<Rightarrow> string \<Rightarrow> pyval \<Rightarrow> pydict" where
  "dict_set d k v = AList.update k v d"

text \<open>
  Python's \<^verbatim>\<open>==\<close>. \<^verbatim>\<open>bool\<close>, \<^verbatim>\<open>int\<close> and \<^verbatim>\<open>float\<close> compare by numeric value
  (\<^verbatim>\<open>True == 1 == 1.0\<close>); lists compare element by element; dicts compare as
  mappings, whatever the order of their keys; values of different kinds differ.
\<close>

fun py_number :: "pyval \<Rightarrow> rat option" where
  "py_number (PBool b) = Some (if b then 1 else 0)"
| "py_number (PInt i) = Some (of_int i)"
| "py_number (PFloat r) = Some r"
| "py_number _ = None"

fun py_eq :: "pyval \<Rightarrow> pyval \<Rightarrow> bool" where
  "py_eq (PList xs) (PList ys) = list_all2 py_eq xs ys"
| "py_eq (PDict xs) (PDict ys) =
     (list_all (\<lambda>(k, v). if map_of xs k = Some v
                  then (case map_of ys k of None \<Rightarrow> False | Some w \<Rightarrow> py_eq v w)
                  else True) xs \<and>
      list_all (\<lambda>(k, w). map_of xs k \<noteq> None) ys)"
| "py_eq (PStr s) (PStr t) = (s = t)"
| "py_eq PNone PNone = True"
| "py_eq x y = (case py_number x of None \<Rightarrow> False
                | Some a \<Rightarrow> (case py_number y of None \<Rightarrow> False | Some b \<Rightarrow> a = b))"

section \<open>Exceptions\<close>

text \<open>
  The exceptions of \<^verbatim>\<open>requests.exceptions\<close> that the transport can raise, all
  subclasses of \<^verbatim>\<open>RequestException\<close>: a refused connection and a DNS failure are
  \<^verbatim>\<open>ConnectionError\<close>s; \<^verbatim>\<open>response.json()\<close> raises \<^verbatim>\<open>JSONDecodeError\<close> on a body
  that is not JSON.
\<close>

datatype request_exception = ConnectionError | Timeout | JSONDecodeError | OtherRequestException

text \<open>
  The four exception classes that the module declares (lines 175-188), the transport's
  \<^verbatim>\<open>RequestException\<close>, and the built-in exceptions that Python raises when
  the body does not have the expected shape.
\<close>

datatype exn =
    RequestException request_exception
  | UnknownError
  | UnauthorizedError
  | InvalidAPIKey
  | WhisperModelNotFound
  | AttributeError
  | TypeError
  | IndexError
  | KeyError

section \<open>Operations on values that can raise\<close>

text \<open>\<^verbatim>\<open>x.get(k)\<close> and \<^verbatim>\<open>x.get(k, default)\<close>: only a dict has the method.\<close>

fun py_get :: "pyval \<Rightarrow> string \<Rightarrow> exn + pyval" where
  "py_get (PDict d) k = Inr (dict_get d k)"
| "py_get _ k = Inl AttributeError"

fun py_get_default :: "pyval \<Rightarrow> string \<Rightarrow> pyval \<Rightarrow> exn + pyval" where
  "py_get_default (PDict d) k dflt = Inr (dict_get_default d k dflt)"
| "py_get_default _ k dflt = Inl AttributeError"

text \<open>
  What a \<^verbatim>\<open>for\<close> loop runs over: the elements of a list, the characters of a string,
  the keys of a dict; any other value is not iterable.
\<close>

fun py_iter :: "pyval \<Rightarrow> exn + pyval list" where
  "py_iter (PList xs) = Inr xs"
| "py_iter (PStr s) = Inr (map (\<lambda>c. PStr [c]) s)"
| "py_iter (PDict d) = Inr (map (\<lambda>k. PStr k) (map fst (AList.clearjunk d)))"
| "py_iter _ = Inl TypeError"

text \<open>\<^verbatim>\<open>x[-1]\<close>: the last element of a list or string, a key lookup on a dict.\<close>

fun py_last :: "pyval \<Rightarrow> exn + pyval" where
  "py_last (PList xs) = (if xs = [] then Inl IndexError else Inr (last xs))"
| "py_last (PStr s) = (if s = [] then Inl IndexError else Inr (PStr [last s]))"
| "py_last (PDict d) = Inl KeyError"
| "py_last _ = Inl TypeError"

section \<open>Constants, the remote service and the log\<close>

text \<open>
  The keys of the record. \<^verbatim>\<open>CONF_API_KEY\<close>, \<^verbatim>\<open>CONF_MODEL\<close> and \<^verbatim>\<open>CONF_NAME\<close> are
  Home Assistant's.
\<close>

definition CONF_API_KEY :: string where
  "CONF_API_KEY = ''api_key''"

definition CONF_MODEL :: string where
  "CONF_MODEL = ''model''"

definition CONF_NAME :: string where
  "CONF_NAME = ''name''"

text \<open>
  Modelled from the spec: \<^verbatim>\<open>const.py\<close> is not among the sources. Section 3 of the
  specification names the two optional fields \<^verbatim>\<open>temperature\<close> and \<^verbatim>\<open>prompt\<close>.
\<close>

definition CONF_TEMPERATURE :: string where
  "CONF_TEMPERATURE = ''temperature''"

definition CONF_PROMPT :: string where
  "CONF_PROMPT = ''prompt''"

text \<open>
  The default values of \<^verbatim>\<open>const.py\<close>, which is not among the sources, are parameters
  of the model: every function below takes them as its first argument.
\<close>

record defaults =
  DEFAULT_NAME :: pyval
  DEFAULT_PROMPT :: pyval
  DEFAULT_TEMPERATURE :: pyval

text \<open>
  What \<^verbatim>\<open>requests.get\<close> returns, as far as the module reads it: the status code,
  the reason phrase, \<^verbatim>\<open>elapsed.seconds\<close>, and the body as \<^verbatim>\<open>json()\<close> parses it
  (\<open>None\<close> when the body is not JSON).
\<close>

record response =
  status_code :: int
  reason :: string
  elapsed_seconds :: int
  json_body :: "pyval option"

definition response_json :: "response \<Rightarrow> exn + pyval" where
  "response_json r =
     (case json_body r of
        None \<Rightarrow> Inl (RequestException JSONDecodeError)
      | Some j \<Rightarrow> Inr j)"

text \<open>
  The remote service: the GET of the model list goes to a fixed URL with a fixed content
  type, so the only part of the request that varies is the key of the
  \<^verbatim>\<open>Authorization: Bearer\<close> header. The call either raises in the transport or
  returns a response.
\<close>

type_synonym remote = "pyval \<Rightarrow> request_exception + response"

text \<open>
  Modelled from the spec: \<^verbatim>\<open>_LOGGER\<close> comes from the package's \<^verbatim>\<open>__init__\<close>, which is
  not among the sources. A call on the logger makes a log record of the message and the
  arguments. Python passes a dict by reference, so the record of line 48 holds the
  caller's dict itself (\<open>TheRecord\<close>) and not a copy of it; the other arguments are
  numbers and strings (\<open>Val\<close>). \<open>'a\<close> is what stands for an argument: \<open>log_arg\<close> in
  a record as the call makes it, \<open>pyval\<close> in a record as a handler writes it.
\<close>

datatype log_arg = TheRecord | Val pyval

datatype 'a log_record =
    Debug string "'a list"
  | Error exn
  | Exception string

text \<open>
  The log: the calls on the logger, oldest first, each with the content of the caller's
  dict at the time of the call.
\<close>

type_synonym log_call = "log_arg log_record \<times> pydict"

text \<open>What one run of \<^verbatim>\<open>validate_input\<close> leaves behind.\<close>

record run =
  res :: "exn + unit"
  data :: pydict
  trace :: "log_call list"

section \<open>\<^verbatim>\<open>validate_input\<close>\<close>

text \<open>
  Lines 76-80, the loop over the model list. \<open>ms\<close> are the entries still to visit;
  \<^verbatim>\<open>response.json().get("data")[-1]\<close> is evaluated again in every iteration that
  does not break.
\<close>

fun models_loop :: "pyval list \<Rightarrow> response \<Rightarrow> pyval \<Rightarrow> exn + unit" where
  "models_loop [] r wanted = Inr ()"
| "models_loop (model # ms) r wanted =
     (case py_get model ''id'' of
        Inl e \<Rightarrow> Inl e
      | Inr i \<Rightarrow>
          if py_eq i wanted then Inr ()
          else
            (case response_json r of
               Inl e \<Rightarrow> Inl e
             | Inr j \<Rightarrow>
                 (case py_get j ''data'' of
                    Inl e \<Rightarrow> Inl e
                  | Inr dat \<Rightarrow>
                      (case py_last dat of
                         Inl e \<Rightarrow> Inl e
                       | Inr l \<Rightarrow>
                           if py_eq model l then Inl WhisperModelNotFound
                           else models_loop ms r wanted))))"

definition check_models :: "response \<Rightarrow> pyval \<Rightarrow> exn + unit" where
  "check_models r wanted =
     (case response_json r of
        Inl e \<Rightarrow> Inl e
      | Inr j \<Rightarrow>
          (case py_get_default j ''data'' (PList []) of
             Inl e \<Rightarrow> Inl e
           | Inr dat \<Rightarrow>
               (case py_iter dat of
                  Inl e \<Rightarrow> Inl e
                | Inr ms \<Rightarrow> models_loop ms r wanted)))"

text \<open>Lines 46-54: the masked debug trace of the record, then the two defaults.\<close>

definition masked :: "pydict \<Rightarrow> pydict" where
  "masked d = dict_set d CONF_API_KEY (PStr ''<api_key>'')"

definition set_default :: "pydict \<Rightarrow> string \<Rightarrow> pyval \<Rightarrow> pydict" where
  "set_default d k v = (if dict_get d k = PNone then dict_set d k v else d)"

definition validate_input :: "defaults \<Rightarrow> remote \<Rightarrow> pydict \<Rightarrow> run" where
  "validate_input C requests_get data0 =
     (let obscured_api_key = dict_get data0 CONF_API_KEY;
          data1 = masked data0;
          log1 = [(Debug ''User validation got: %s'' [TheRecord], data1)];
          data2 = dict_set data1 CONF_API_KEY obscured_api_key;
          data3 = set_default data2 CONF_TEMPERATURE (DEFAULT_TEMPERATURE C);
          data4 = set_default data3 CONF_PROMPT (DEFAULT_PROMPT C)
      in case requests_get (dict_get data4 CONF_API_KEY) of
           Inl e \<Rightarrow> \<lparr>res = Inl (RequestException e), data = data4, trace = log1\<rparr>
         | Inr r \<Rightarrow>
             (let log2 = log1 @
                    [(Debug ''Models request took %f s and returned %d - %s''
                        [Val (PInt (elapsed_seconds r)), Val (PInt (status_code r)),
                         Val (PStr (reason r))],
                      data4)]
              in if status_code r = 401
                   then \<lparr>res = Inl InvalidAPIKey, data = data4, trace = log2\<rparr>
                 else if status_code r = 403
                   then \<lparr>res = Inl UnauthorizedError, data = data4, trace = log2\<rparr>
                 else if status_code r \<noteq> 200
                   then \<lparr>res = Inl UnknownError, data = data4, trace = log2\<rparr>
                 else
                   (case check_models r (dict_get data4 CONF_MODEL) of
                      Inl e \<Rightarrow> \<lparr>res = Inl e, data = data4, trace = log2\<rparr>
                    | Inr u \<Rightarrow>
                        \<lparr>res = Inr (), data = data4,
                         trace = log2 @ [(Debug ''User validation successful'' [], data4)]\<rparr>)))"

section \<open>The two flows\<close>

text \<open>
  What a step of the flow returns to the host: the entry to create, the entry to update,
  an abort, or the form again with its errors (and, when reconfiguring, the values it
  suggests). The schema of the form is a constant and is left out.
\<close>

record config_entry =
  unique_id :: pyval
  entry_data :: pydict

datatype flow_result =
    CreateEntry pyval pydict
  | UpdateReloadAbort config_entry pyval pyval pydict string
  | Abort string
  | ShowForm string "(string \<times> string) list"
  | ShowFormSuggested string pydict "(string \<times> string) list"

text \<open>
  The \<^verbatim>\<open>except\<close> clauses of both steps (lines 106-120 and 150-164): what the
  clause logs and the error the form then shows. \<open>None\<close>: no clause catches the
  exception, and it leaves the step.
\<close>

fun except_clause ::
    "exn \<Rightarrow> (log_arg log_record \<times> (string \<times> string) list) option" where
  "except_clause (RequestException e) =
     Some (Error (RequestException e), [(''base'', ''connection_error'')])"
| "except_clause UnauthorizedError =
     Some (Exception ''Unauthorized'', [(''base'', ''unauthorized'')])"
| "except_clause InvalidAPIKey =
     Some (Exception ''Invalid API key'', [(CONF_API_KEY, ''invalid_api_key'')])"
| "except_clause WhisperModelNotFound =
     Some (Exception ''Whisper Model Not Found'', [(''base'', ''whisper_model_not_found'')])"
| "except_clause UnknownError =
     Some (Exception ''Unknown error'', [(''base'', ''unknown'')])"
| "except_clause _ = None"

definition async_step_user ::
    "defaults \<Rightarrow> remote \<Rightarrow> pydict option \<Rightarrow> (exn + flow_result) \<times> log_call list" where
  "async_step_user C requests_get user_input =
     (case user_input of
        None \<Rightarrow> (Inr (ShowForm ''user'' []), [])
      | Some d \<Rightarrow>
          (let v = validate_input C requests_get d
           in case res v of
                Inr u \<Rightarrow>
                  (Inr (CreateEntry (dict_get_default (data v) CONF_NAME (DEFAULT_NAME C))
                          (data v)),
                   trace v)
              | Inl e \<Rightarrow>
                  (case except_clause e of
                     Some (l, errors) \<Rightarrow>
                       (Inr (ShowForm ''user'' errors), trace v @ [(l, data v)])
                   | None \<Rightarrow> (Inl e, trace v))))"

text \<open>
  \<^verbatim>\<open>user_input or config_entry.data\<close>: an empty dict is false. The suggested values
  are the submitted dict itself, so the form shows it as \<^verbatim>\<open>validate_input\<close> left it.
\<close>

definition async_step_reconfigure ::
    "defaults \<Rightarrow> remote \<Rightarrow> config_entry option \<Rightarrow> pydict option
       \<Rightarrow> (exn + flow_result) \<times> log_call list" where
  "async_step_reconfigure C requests_get entry user_input =
     (case entry of
        None \<Rightarrow> (Inr (Abort ''reconfigure_failed''), [])
      | Some config_entry \<Rightarrow>
          (case user_input of
             None \<Rightarrow>
               (Inr (ShowFormSuggested ''reconfigure'' (entry_data config_entry) []), [])
           | Some d \<Rightarrow>
               (let v = validate_input C requests_get d
                in case res v of
                     Inr u \<Rightarrow>
                       (Inr (UpdateReloadAbort config_entry
                               (dict_get_default (data v) CONF_NAME (DEFAULT_NAME C))
                               (unique_id config_entry) (data v) ''reconfigure_successful''),
                        trace v)
                   | Inl e \<Rightarrow>
                       (case except_clause e of
                          Some (l, errors) \<Rightarrow>
                            (Inr (ShowFormSuggested ''reconfigure''
                                    (if d = [] then entry_data config_entry else data v)
                                    errors),
                             trace v @ [(l, data v)])
                        | None \<Rightarrow> (Inl e, trace v)))))"

section \<open>Handlers of the log\<close>

text \<open>
  Python's \<^verbatim>\<open>logging\<close> formats a record (\<^verbatim>\<open>msg % args\<close>) when a handler emits it,
  and the arguments are then what they are at that time. Which handlers the host attaches
  to the logger is not a matter of this module; the standard library has both kinds. A
  \<^verbatim>\<open>StreamHandler\<close> writes inside the call, so it reads the dict as it is during the
  call. A \<^verbatim>\<open>MemoryHandler\<close> keeps the records and writes them when it is flushed, so
  it reads the dict as it is then. What a handler writes is the record with its
  arguments resolved; the text that \<^verbatim>\<open>%s\<close> makes of a value is not modelled.
\<close>

fun resolve :: "pydict \<Rightarrow> log_arg \<Rightarrow> pyval" where
  "resolve content TheRecord = PDict content"
| "resolve content (Val v) = v"

definition stream_handler :: "log_call list \<Rightarrow> pyval log_record list" where
  "stream_handler calls = map (\<lambda>(l, now). map_log_record (resolve now) l) calls"

definition memory_handler :: "pydict \<Rightarrow> log_call list \<Rightarrow> pyval log_record list" where
  "memory_handler at_flush calls = map (\<lambda>(l, now). map_log_record (resolve at_flush) l) calls"

section \<open>Scenarios\<close>

text \<open>
  The record of the specification's concrete scenarios (section 8): a name, a key and a
  model, with neither temperature nor prompt; some default values; a service that
  answers every key with the same response, and one that cannot be reached; and the
  body of a model list.
\<close>

definition scenario_record :: pydict where
  "scenario_record =
     [(''name'', PStr ''My Whisper''), (''api_key'', PStr ''sk-abc''),
      (''model'', PStr ''whisper-large-v3'')]"

definition scenario_defaults :: defaults where
  "scenario_defaults =
     \<lparr>DEFAULT_NAME = PStr ''GroqCloud Whisper'', DEFAULT_PROMPT = PStr [],
      DEFAULT_TEMPERATURE = PFloat 0\<rparr>"

definition reply :: "int \<Rightarrow> string \<Rightarrow> pyval option \<Rightarrow> response" where
  "reply code phrase body =
     \<lparr>status_code = code, reason = phrase, elapsed_seconds = 0, json_body = body\<rparr>"

definition answers :: "int \<Rightarrow> string \<Rightarrow> pyval option \<Rightarrow> remote" where
  "answers code phrase body = (\<lambda>key. Inr (reply code phrase body))"

definition unreachable :: remote where
  "unreachable = (\<lambda>key. Inl ConnectionError)"

definition model_list :: "pyval list \<Rightarrow> pyval option" where
  "model_list ms = Some (PDict [(''object'', PStr ''list''), (''data'', PList ms)])"

definition model_entry :: "string \<Rightarrow> pyval" where
  "model_entry i = PDict [(''id'', PStr i), (''object'', PStr ''model'')]"

section \<open>Facts about dicts and values\<close>

lemma dict_get_set: "dict_get (dict_set d k v) k' = (if k' = k then v else dict_get d k')"
  by (simp add: dict_get_def dict_get_default_def dict_set_def update_conv')

lemma dict_get_set_default:
  "dict_get (set_default d k v) k' =
     (if k' = k \<and> dict_get d k = PNone then v else dict_get d k')"
  by (simp add: set_default_def dict_get_set)

lemma keys_distinct:
  "CONF_API_KEY \<noteq> CONF_TEMPERATURE" "CONF_API_KEY \<noteq> CONF_PROMPT"
  "CONF_TEMPERATURE \<noteq> CONF_PROMPT" "CONF_MODEL \<noteq> CONF_TEMPERATURE"
  "CONF_MODEL \<noteq> CONF_PROMPT" "CONF_MODEL \<noteq> CONF_API_KEY"
  by (simp_all add: CONF_API_KEY_def CONF_TEMPERATURE_def CONF_PROMPT_def CONF_MODEL_def)

lemma masked_dict_set: "masked (dict_set d CONF_API_KEY v) = masked d"
  by (simp add: masked_def dict_set_def update_last)


text \<open>\<^verbatim>\<open>==\<close> is reflexive on the values of the model.\<close>

lemma py_eq_refl: "py_eq x x"
proof (induction x)
  case (PList xs)
  then show ?case by (simp add: list_all2_same)
next
  case (PDict xs)
  have "map_of xs k = Some v \<Longrightarrow> py_eq v v" for k v
    using PDict by (force dest: map_of_SomeD)
  moreover have "(k, w) \<in> set xs \<Longrightarrow> map_of xs k \<noteq> None" for k w
    by (metis map_of_eq_None_iff fst_conv image_eqI)
  ultimately show ?case
    by (auto simp add: list_all_iff)
qed simp_all

section \<open>What a run of \<^verbatim>\<open>validate_input\<close> returns, leaves and logs\<close>

lemma data_validate_input:
  "data (validate_input C rg d) =
     set_default
       (set_default (dict_set (masked d) CONF_API_KEY (dict_get d CONF_API_KEY))
          CONF_TEMPERATURE (DEFAULT_TEMPERATURE C))
       CONF_PROMPT (DEFAULT_PROMPT C)"
  by (simp add: validate_input_def Let_def split: sum.splits)

lemma dict_get_data:
  "dict_get (data (validate_input C rg d)) k =
     (if k = CONF_TEMPERATURE \<and> dict_get d k = PNone then DEFAULT_TEMPERATURE C
      else if k = CONF_PROMPT \<and> dict_get d k = PNone then DEFAULT_PROMPT C
      else dict_get d k)"
  unfolding data_validate_input using keys_distinct
  by (auto simp add: dict_get_set_default dict_get_set masked_def)

lemma data_independent_of_remote:
  "data (validate_input C rg d) = data (validate_input C rg' d)"
  by (simp add: data_validate_input)

lemma res_validate_input:
  "res (validate_input C rg d) =
     (case rg (dict_get d CONF_API_KEY) of
        Inl e \<Rightarrow> Inl (RequestException e)
      | Inr r \<Rightarrow>
          if status_code r = 401 then Inl InvalidAPIKey
          else if status_code r = 403 then Inl UnauthorizedError
          else if status_code r \<noteq> 200 then Inl UnknownError
          else check_models r (dict_get d CONF_MODEL))"
proof -
  let ?d4 = "data (validate_input C rg d)"
  have k: "dict_get ?d4 CONF_API_KEY = dict_get d CONF_API_KEY"
    and m: "dict_get ?d4 CONF_MODEL = dict_get d CONF_MODEL"
    using keys_distinct by (simp_all add: dict_get_data)
  show ?thesis
    using k m unfolding data_validate_input
    by (simp add: validate_input_def Let_def split: sum.splits)
qed

lemma trace_validate_input:
  "trace (validate_input C rg d) =
     (Debug ''User validation got: %s'' [TheRecord], masked d) #
     (case rg (dict_get d CONF_API_KEY) of
        Inl e \<Rightarrow> []
      | Inr r \<Rightarrow>
          (Debug ''Models request took %f s and returned %d - %s''
             [Val (PInt (elapsed_seconds r)), Val (PInt (status_code r)),
              Val (PStr (reason r))],
           data (validate_input C rg d)) #
          (if res (validate_input C rg d) = Inr ()
             then [(Debug ''User validation successful'' [], data (validate_input C rg d))]
             else []))"
proof -
  let ?d4 = "data (validate_input C rg d)"
  have k: "dict_get ?d4 CONF_API_KEY = dict_get d CONF_API_KEY"
    using keys_distinct by (simp add: dict_get_data)
  show ?thesis
    using k unfolding data_validate_input
    by (simp add: validate_input_def Let_def split: sum.splits)
qed

lemma stream_handler_trace:
  "stream_handler (trace (validate_input C rg d)) =
     Debug ''User validation got: %s'' [PDict (masked d)] #
     (case rg (dict_get d CONF_API_KEY) of
        Inl e \<Rightarrow> []
      | Inr r \<Rightarrow>
          Debug ''Models request took %f s and returned %d - %s''
            [PInt (elapsed_seconds r), PInt (status_code r), PStr (reason r)] #
          (if res (validate_input C rg d) = Inr ()
             then [Debug ''User validation successful'' []] else []))"
  by (simp add: trace_validate_input stream_handler_def split: sum.splits)


section \<open>The loop over the model list\<close>

text \<open>One iteration on an entry that is an object, when the body holds a non-empty list.\<close>

lemma models_loop_step:
  assumes "json_body r = Some (PDict body)" and "dict_get body ''data'' = PList all"
    and "all \<noteq> []"
  shows "models_loop (PDict e # ms) r wanted =
     (if py_eq (dict_get e ''id'') wanted then Inr ()
      else if py_eq (PDict e) (last all) then Inl WhisperModelNotFound
      else models_loop ms r wanted)"
  using assms by (simp add: response_json_def)

lemma models_loop_no_match:
  assumes "json_body r = Some (PDict body)" and "dict_get body ''data'' = PList all"
    and "all \<noteq> []" and "ms \<noteq> []" and "last ms = last all"
    and "\<forall>m \<in> set ms. \<exists>e. m = PDict e \<and> \<not> py_eq (dict_get e ''id'') wanted"
  shows "models_loop ms r wanted = Inl WhisperModelNotFound"
  using assms(4-6)
proof (induction ms)
  case Nil
  then show ?case by simp
next
  case (Cons m ms)
  then obtain e where e: "m = PDict e" "\<not> py_eq (dict_get e ''id'') wanted"
    by auto
  note step = models_loop_step [OF assms(1-3), of e ms wanted]
  show ?case
  proof (cases "ms = []")
    case True
    then have "PDict e = last all" using Cons.prems e by simp
    then have "py_eq (PDict e) (last all)" using py_eq_refl [of "PDict e"] by simp
    then show ?thesis
      unfolding e(1) step using e(2) by simp
  next
    case False
    then have "models_loop ms r wanted = Inl WhisperModelNotFound"
      using Cons by simp
    then show ?thesis
      unfolding e(1) step using e(2) by simp
  qed
qed

lemma models_loop_match:
  assumes "json_body r = Some (PDict body)" and "dict_get body ''data'' = PList all"
    and "all \<noteq> []"
    and "\<forall>m \<in> set pre. \<exists>e. m = PDict e \<and> \<not> py_eq (dict_get e ''id'') wanted
            \<and> \<not> py_eq m (last all)"
    and "py_eq (dict_get e ''id'') wanted"
  shows "models_loop (pre @ PDict e # post) r wanted = Inr ()"
  using assms(4)
proof (induction pre)
  case Nil
  then show ?case using assms(5) by simp
next
  case (Cons m pre)
  then obtain e' where e: "m = PDict e'" "\<not> py_eq (dict_get e' ''id'') wanted"
      "\<not> py_eq (PDict e') (last all)"
    by auto
  have "models_loop (pre @ PDict e # post) r wanted = Inr ()"
    using Cons by simp
  then show ?case
    using e models_loop_step [OF assms(1-3), of e' "pre @ PDict e # post" wanted] by simp
qed

lemma check_models_list:
  assumes "json_body r = Some (PDict body)" and "map_of body ''data'' = Some (PList ms)"
  shows "check_models r wanted = models_loop ms r wanted"
    and "dict_get body ''data'' = PList ms"
  using assms
  by (simp_all add: check_models_def response_json_def dict_get_def dict_get_default_def)

section \<open>The status code decides the error\<close>

text \<open>
  Claim C3. For every record, if the remote call returns status code 401, then
  \<^verbatim>\<open>validate_input\<close> raises \<^verbatim>\<open>InvalidAPIKey\<close>, whatever the record's other fields
  hold.
\<close>

theorem status_401_is_InvalidAPIKey:
  assumes "rg (dict_get d CONF_API_KEY) = Inr r" and "status_code r = 401"
  shows "res (validate_input C rg d) = Inl InvalidAPIKey"
  using assms by (simp add: res_validate_input)

theorem status_401_is_InvalidAPIKey_witness:
  "answers 401 ''Unauthorized'' None (dict_get scenario_record CONF_API_KEY)
     = Inr (reply 401 ''Unauthorized'' None)
   \<and> status_code (reply 401 ''Unauthorized'' None) = 401
   \<and> res (validate_input scenario_defaults (answers 401 ''Unauthorized'' None) scenario_record)
       = Inl InvalidAPIKey"
  using status_401_is_InvalidAPIKey [of "answers 401 ''Unauthorized'' None" scenario_record
      "reply 401 ''Unauthorized'' None" scenario_defaults]
  by (simp add: answers_def reply_def)

text \<open>
  Claim C4. For every record, if the remote call returns status code 403, then
  \<^verbatim>\<open>validate_input\<close> raises \<^verbatim>\<open>UnauthorizedError\<close>.
\<close>

theorem status_403_is_UnauthorizedError:
  assumes "rg (dict_get d CONF_API_KEY) = Inr r" and "status_code r = 403"
  shows "res (validate_input C rg d) = Inl UnauthorizedError"
  using assms by (simp add: res_validate_input)

theorem status_403_is_UnauthorizedError_witness:
  "answers 403 ''Forbidden'' None (dict_get scenario_record CONF_API_KEY)
     = Inr (reply 403 ''Forbidden'' None)
   \<and> status_code (reply 403 ''Forbidden'' None) = 403
   \<and> res (validate_input scenario_defaults (answers 403 ''Forbidden'' None) scenario_record)
       = Inl UnauthorizedError"
  using status_403_is_UnauthorizedError [of "answers 403 ''Forbidden'' None" scenario_record
      "reply 403 ''Forbidden'' None" scenario_defaults]
  by (simp add: answers_def reply_def)

text \<open>
  Claim C5. For every record, if the remote call returns a status code other than 200,
  401 and 403 (500, say), then \<^verbatim>\<open>validate_input\<close> raises \<^verbatim>\<open>UnknownError\<close>.
\<close>

theorem other_status_is_UnknownError:
  assumes "rg (dict_get d CONF_API_KEY) = Inr r"
    and "status_code r \<noteq> 200" and "status_code r \<noteq> 401" and "status_code r \<noteq> 403"
  shows "res (validate_input C rg d) = Inl UnknownError"
  using assms by (simp add: res_validate_input)

theorem other_status_is_UnknownError_witness:
  "answers 500 ''Internal Server Error'' None (dict_get scenario_record CONF_API_KEY)
     = Inr (reply 500 ''Internal Server Error'' None)
   \<and> status_code (reply 500 ''Internal Server Error'' None) \<noteq> 200
   \<and> status_code (reply 500 ''Internal Server Error'' None) \<noteq> 401
   \<and> status_code (reply 500 ''Internal Server Error'' None) \<noteq> 403
   \<and> res (validate_input scenario_defaults (answers 500 ''Internal Server Error'' None)
         scenario_record)
       = Inl UnknownError"
  using other_status_is_UnknownError [of "answers 500 ''Internal Server Error'' None"
      scenario_record "reply 500 ''Internal Server Error'' None" scenario_defaults]
  by (simp add: answers_def reply_def)

section \<open>A failure of the transport\<close>

text \<open>
  Claim C6. For every record, if the transport raises a network-level failure (a refused
  connection, a timeout, a DNS failure), \<^verbatim>\<open>validate_input\<close> lets that exception
  through: it is a \<^verbatim>\<open>RequestException\<close>, none of the four exceptions of the module,
  and both steps of the flow answer it with the form and the error
  \<^verbatim>\<open>connection_error\<close>.
\<close>

theorem transport_failure_is_connection_error:
  assumes "rg (dict_get d CONF_API_KEY) = Inl e"
  shows "res (validate_input C rg d) = Inl (RequestException e)
    \<and> RequestException e
        \<notin> {InvalidAPIKey, UnauthorizedError, UnknownError, WhisperModelNotFound}
    \<and> fst (async_step_user C rg (Some d))
        = Inr (ShowForm ''user'' [(''base'', ''connection_error'')])
    \<and> (\<exists>suggested. fst (async_step_reconfigure C rg (Some entry) (Some d))
          = Inr (ShowFormSuggested ''reconfigure'' suggested
                   [(''base'', ''connection_error'')]))"
  using assms
  by (simp add: res_validate_input async_step_user_def async_step_reconfigure_def Let_def)

theorem transport_failure_is_connection_error_witness:
  "unreachable (dict_get scenario_record CONF_API_KEY) = Inl ConnectionError
   \<and> res (validate_input scenario_defaults unreachable scenario_record)
       = Inl (RequestException ConnectionError)
   \<and> fst (async_step_user scenario_defaults unreachable (Some scenario_record))
       = Inr (ShowForm ''user'' [(''base'', ''connection_error'')])"
  using transport_failure_is_connection_error [of unreachable scenario_record ConnectionError
      scenario_defaults]
  by (simp add: unreachable_def)

section \<open>The record after the call\<close>

text \<open>
  Claim C7. For every record in which \<^verbatim>\<open>temperature\<close> and \<^verbatim>\<open>prompt\<close> are absent
  (\<^verbatim>\<open>data.get\<close> gives \<^verbatim>\<open>None\<close>), after a successful \<^verbatim>\<open>validate_input\<close> the
  record's \<^verbatim>\<open>temperature\<close> is \<^verbatim>\<open>DEFAULT_TEMPERATURE\<close> and its \<^verbatim>\<open>prompt\<close> is
  \<^verbatim>\<open>DEFAULT_PROMPT\<close>.
\<close>

theorem defaults_filled_on_success:
  assumes "dict_get d CONF_TEMPERATURE = PNone" and "dict_get d CONF_PROMPT = PNone"
    and "res (validate_input C rg d) = Inr ()"
  shows "dict_get (data (validate_input C rg d)) CONF_TEMPERATURE = DEFAULT_TEMPERATURE C
    \<and> dict_get (data (validate_input C rg d)) CONF_PROMPT = DEFAULT_PROMPT C"
  using assms keys_distinct by (simp add: dict_get_data)

theorem defaults_filled_on_success_witness:
  "dict_get scenario_record CONF_TEMPERATURE = PNone
   \<and> dict_get scenario_record CONF_PROMPT = PNone
   \<and> res (validate_input scenario_defaults
            (answers 200 ''OK'' (model_list [model_entry ''whisper-large-v3'']))
            scenario_record) = Inr ()
   \<and> dict_get (data (validate_input scenario_defaults
                      (answers 200 ''OK'' (model_list [model_entry ''whisper-large-v3'']))
                      scenario_record)) CONF_TEMPERATURE = PFloat 0
   \<and> dict_get (data (validate_input scenario_defaults
                      (answers 200 ''OK'' (model_list [model_entry ''whisper-large-v3'']))
                      scenario_record)) CONF_PROMPT = PStr []"
proof -
  let ?rg = "answers 200 ''OK'' (model_list [model_entry ''whisper-large-v3''])"
  have t: "dict_get scenario_record CONF_TEMPERATURE = PNone"
    and p: "dict_get scenario_record CONF_PROMPT = PNone"
    by (simp_all add: scenario_record_def dict_get_def dict_get_default_def
        CONF_TEMPERATURE_def CONF_PROMPT_def)
  have ok: "res (validate_input scenario_defaults ?rg scenario_record) = Inr ()"
    by (simp add: res_validate_input check_models_def response_json_def answers_def reply_def
        model_list_def model_entry_def scenario_record_def CONF_MODEL_def dict_get_def
        dict_get_default_def)
  have dflt: "DEFAULT_TEMPERATURE scenario_defaults = PFloat 0"
    "DEFAULT_PROMPT scenario_defaults = PStr []"
    by (simp_all add: scenario_defaults_def)
  show ?thesis
    using t p ok defaults_filled_on_success [OF t p ok]
    unfolding dflt by blast
qed




text \<open>
  Claim C10. For every record lacking \<^verbatim>\<open>temperature\<close> or \<^verbatim>\<open>prompt\<close>, if
  \<^verbatim>\<open>validate_input\<close> raises one of \<^verbatim>\<open>InvalidAPIKey\<close>, \<^verbatim>\<open>UnauthorizedError\<close>,
  \<^verbatim>\<open>UnknownError\<close> and \<^verbatim>\<open>WhisperModelNotFound\<close>, the record has been changed all
  the same: each of the two fields that was absent holds its default. The defaults are
  set before the remote call, so the record that the caller sees does not depend on what
  the remote service did.
\<close>

theorem defaults_filled_on_failure:
  assumes "res (validate_input C rg d)
      \<in> {Inl InvalidAPIKey, Inl UnauthorizedError, Inl UnknownError, Inl WhisperModelNotFound}"
  shows "(dict_get d CONF_TEMPERATURE = PNone \<longrightarrow>
            dict_get (data (validate_input C rg d)) CONF_TEMPERATURE = DEFAULT_TEMPERATURE C)
    \<and> (dict_get d CONF_PROMPT = PNone \<longrightarrow>
            dict_get (data (validate_input C rg d)) CONF_PROMPT = DEFAULT_PROMPT C)
    \<and> data (validate_input C rg d) = data (validate_input C rg' d)"
  using keys_distinct data_independent_of_remote [of C rg d rg']
  by (simp add: dict_get_data)

theorem defaults_filled_on_failure_witness:
  "res (validate_input scenario_defaults (answers 401 ''Unauthorized'' None) scenario_record)
     \<in> {Inl InvalidAPIKey, Inl UnauthorizedError, Inl UnknownError, Inl WhisperModelNotFound}
   \<and> dict_get scenario_record CONF_TEMPERATURE = PNone
   \<and> dict_get (data (validate_input scenario_defaults (answers 401 ''Unauthorized'' None)
                      scenario_record)) CONF_TEMPERATURE = PFloat 0
   \<and> dict_get scenario_record CONF_PROMPT = PNone
   \<and> dict_get (data (validate_input scenario_defaults (answers 401 ''Unauthorized'' None)
                      scenario_record)) CONF_PROMPT = PStr []
   \<and> data (validate_input scenario_defaults (answers 401 ''Unauthorized'' None) scenario_record)
       = data (validate_input scenario_defaults unreachable scenario_record)"
proof -
  let ?rg = "answers 401 ''Unauthorized'' None"
  have t: "dict_get scenario_record CONF_TEMPERATURE = PNone"
    and p: "dict_get scenario_record CONF_PROMPT = PNone"
    by (simp_all add: scenario_record_def dict_get_def dict_get_default_def
        CONF_TEMPERATURE_def CONF_PROMPT_def)
  have ko: "res (validate_input scenario_defaults ?rg scenario_record)
      \<in> {Inl InvalidAPIKey, Inl UnauthorizedError, Inl UnknownError, Inl WhisperModelNotFound}"
    by (simp add: res_validate_input answers_def reply_def)
  have dflt: "DEFAULT_TEMPERATURE scenario_defaults = PFloat 0"
    "DEFAULT_PROMPT scenario_defaults = PStr []"
    by (simp_all add: scenario_defaults_def)
  show ?thesis
    using t p ko defaults_filled_on_failure [OF ko, of unreachable]
    unfolding dflt by blast
qed

section \<open>The key and the log\<close>

text \<open>
  Claim C8 says that \<^verbatim>\<open>validate_input\<close> never writes the value of \<^verbatim>\<open>api_key\<close> to a
  log sink. Line 48 gives the logger the caller's dict itself, and line 49 puts the key
  back into that same dict; the key stays there until the function returns or raises. So
  for every record, a handler that writes the debug record of line 48 after the call
  writes the record with the caller's key in it, not with \<^verbatim>\<open><api_key>\<close>.
\<close>

theorem memory_handler_writes_api_key:
  "hd (memory_handler (data (validate_input C rg d)) (trace (validate_input C rg d)))
     = Debug ''User validation got: %s'' [PDict (data (validate_input C rg d))]
   \<and> dict_get (data (validate_input C rg d)) CONF_API_KEY = dict_get d CONF_API_KEY"
  using keys_distinct
  by (simp add: trace_validate_input memory_handler_def dict_get_data)

theorem memory_handler_writes_api_key_witness:
  "hd (memory_handler
         (data (validate_input scenario_defaults
                  (answers 200 ''OK'' (model_list [model_entry ''whisper-large-v3'']))
                  scenario_record))
         (trace (validate_input scenario_defaults
                   (answers 200 ''OK'' (model_list [model_entry ''whisper-large-v3'']))
                   scenario_record)))
     = Debug ''User validation got: %s''
         [PDict [(''name'', PStr ''My Whisper''), (''api_key'', PStr ''sk-abc''),
                 (''model'', PStr ''whisper-large-v3''), (''temperature'', PFloat 0),
                 (''prompt'', PStr [])]]"
proof -
  let ?rg = "answers 200 ''OK'' (model_list [model_entry ''whisper-large-v3''])"
  have "data (validate_input scenario_defaults ?rg scenario_record)
      = [(''name'', PStr ''My Whisper''), (''api_key'', PStr ''sk-abc''),
         (''model'', PStr ''whisper-large-v3''), (''temperature'', PFloat 0),
         (''prompt'', PStr [])]"
    by (simp add: data_validate_input masked_def set_default_def dict_set_def dict_get_def
        dict_get_default_def scenario_record_def scenario_defaults_def CONF_API_KEY_def
        CONF_TEMPERATURE_def CONF_PROMPT_def)
  then show ?thesis
    using memory_handler_writes_api_key [of scenario_defaults ?rg scenario_record] by simp
qed

text \<open>
  What the masking does achieve. A handler that writes inside the call writes the record
  of line 48 with \<^verbatim>\<open><api_key>\<close> in place of the key, and all that it writes during the
  run is the same for any other key that the service answers alike.
\<close>

theorem stream_handler_writes_mask:
  assumes "rg' key' = rg (dict_get d CONF_API_KEY)"
  shows "hd (stream_handler (trace (validate_input C rg d)))
        = Debug ''User validation got: %s'' [PDict (masked d)]
    \<and> dict_get (masked d) CONF_API_KEY = PStr ''<api_key>''
    \<and> stream_handler (trace (validate_input C rg' (dict_set d CONF_API_KEY key')))
        = stream_handler (trace (validate_input C rg d))"
proof -
  have m: "dict_get (dict_set d CONF_API_KEY key') CONF_MODEL = dict_get d CONF_MODEL"
    and k: "dict_get (dict_set d CONF_API_KEY key') CONF_API_KEY = key'"
    using keys_distinct by (simp_all add: dict_get_set)
  have "res (validate_input C rg' (dict_set d CONF_API_KEY key')) = res (validate_input C rg d)"
    unfolding res_validate_input m k assms ..
  then have "stream_handler (trace (validate_input C rg' (dict_set d CONF_API_KEY key')))
      = stream_handler (trace (validate_input C rg d))"
    using assms by (simp add: stream_handler_trace masked_dict_set dict_get_set)
  then show ?thesis
    by (simp add: stream_handler_trace masked_def dict_get_set)
qed

theorem stream_handler_writes_mask_witness:
  "hd (stream_handler (trace (validate_input scenario_defaults
         (answers 200 ''OK'' (model_list [model_entry ''whisper-large-v3'']))
         scenario_record)))
     = Debug ''User validation got: %s''
         [PDict [(''name'', PStr ''My Whisper''), (''api_key'', PStr ''<api_key>''),
                 (''model'', PStr ''whisper-large-v3'')]]"
proof -
  let ?rg = "answers 200 ''OK'' (model_list [model_entry ''whisper-large-v3''])"
  have same: "?rg (PStr ''sk-xyz'') = ?rg (dict_get scenario_record CONF_API_KEY)"
    by (simp add: answers_def)
  have shown: "masked scenario_record
      = [(''name'', PStr ''My Whisper''), (''api_key'', PStr ''<api_key>''),
         (''model'', PStr ''whisper-large-v3'')]"
    by (simp add: masked_def dict_set_def scenario_record_def CONF_API_KEY_def)
  show ?thesis
    using stream_handler_writes_mask [where rg' = ?rg and key' = "PStr ''sk-xyz''"
        and rg = ?rg and d = scenario_record and C = scenario_defaults, OF same]
    unfolding shown by blast
qed

section \<open>The search of the model list\<close>

text \<open>
  Claim C1 asks for \<^verbatim>\<open>WhisperModelNotFound\<close> whenever a response with status 200
  lists no entry with the record's model, an empty or absent list included. The
  \<^verbatim>\<open>raise\<close> stands inside the loop, so a list with no entry never reaches it: for every
  record, a response with status 200 whose body is an object with an empty \<^verbatim>\<open>data\<close>
  list, or with no \<^verbatim>\<open>data\<close> at all, makes \<^verbatim>\<open>validate_input\<close> return normally.
\<close>

theorem empty_model_list_is_accepted:
  assumes "rg (dict_get d CONF_API_KEY) = Inr r" and "status_code r = 200"
    and "json_body r = Some (PDict body)"
    and "dict_get_default body ''data'' (PList []) = PList []"
  shows "res (validate_input C rg d) = Inr ()"
  using assms by (simp add: res_validate_input check_models_def response_json_def)

theorem empty_model_list_is_accepted_witness:
  "answers 200 ''OK'' (model_list []) (dict_get scenario_record CONF_API_KEY)
     = Inr (reply 200 ''OK'' (model_list []))
   \<and> status_code (reply 200 ''OK'' (model_list [])) = 200
   \<and> json_body (reply 200 ''OK'' (model_list []))
       = Some (PDict [(''object'', PStr ''list''), (''data'', PList [])])
   \<and> dict_get_default [(''object'', PStr ''list''), (''data'', PList [])] ''data'' (PList [])
       = PList []
   \<and> res (validate_input scenario_defaults (answers 200 ''OK'' (model_list [])) scenario_record)
       = Inr ()"
proof -
  have a: "answers 200 ''OK'' (model_list []) (dict_get scenario_record CONF_API_KEY)
      = Inr (reply 200 ''OK'' (model_list []))"
    by (simp add: answers_def)
  have b: "status_code (reply 200 ''OK'' (model_list [])) = 200"
    by (simp add: reply_def)
  have c: "json_body (reply 200 ''OK'' (model_list []))
      = Some (PDict [(''object'', PStr ''list''), (''data'', PList [])])"
    by (simp add: reply_def model_list_def)
  have d: "dict_get_default [(''object'', PStr ''list''), (''data'', PList [])] ''data''
      (PList []) = PList []"
    by (simp add: dict_get_default_def)
  show ?thesis
    using a b c d
      empty_model_list_is_accepted [where rg = "answers 200 ''OK'' (model_list [])"
        and d = scenario_record and r = "reply 200 ''OK'' (model_list [])"
        and body = "[(''object'', PStr ''list''), (''data'', PList [])]"
        and C = scenario_defaults]
    by blast
qed

text \<open>
  Claim C2 asks for success whenever a response with status 200 lists an entry with the
  record's model, wherever it stands. The loop takes an entry for the last one when it
  is equal to the last one, so a listed model is not found when an entry before it is a
  copy of the list's last entry: here \<^verbatim>\<open>whisper-large-v3\<close> is the second of three
  entries, the first and the third are alike, and \<^verbatim>\<open>validate_input\<close> raises
  \<^verbatim>\<open>WhisperModelNotFound\<close>.
\<close>

theorem listed_model_after_copy_of_last_entry_is_rejected:
  "res (validate_input scenario_defaults
          (answers 200 ''OK''
             (model_list [model_entry ''distil-whisper-large-v3-en'',
                          model_entry ''whisper-large-v3'',
                          model_entry ''distil-whisper-large-v3-en'']))
          scenario_record)
     = Inl WhisperModelNotFound"
  by (simp add: res_validate_input check_models_def response_json_def answers_def reply_def
      model_list_def model_entry_def scenario_record_def CONF_API_KEY_def CONF_MODEL_def
      dict_get_def dict_get_default_def)

text \<open>
  What the loop does get right. When the response has status 200 and its \<^verbatim>\<open>data\<close> is
  a list of objects that is not empty, a record whose model is the \<^verbatim>\<open>id\<close> of no entry
  is refused with \<^verbatim>\<open>WhisperModelNotFound\<close>.
\<close>

theorem unlisted_model_is_rejected:
  assumes "rg (dict_get d CONF_API_KEY) = Inr r" and "status_code r = 200"
    and "json_body r = Some (PDict body)" and "map_of body ''data'' = Some (PList ms)"
    and "ms \<noteq> []"
    and "\<forall>m \<in> set ms. \<exists>e. m = PDict e \<and> \<not> py_eq (dict_get e ''id'') (dict_get d CONF_MODEL)"
  shows "res (validate_input C rg d) = Inl WhisperModelNotFound"
proof -
  note body = check_models_list [OF assms(3,4)]
  have "models_loop ms r (dict_get d CONF_MODEL) = Inl WhisperModelNotFound"
    using models_loop_no_match [OF assms(3) body(2) assms(5) assms(5) refl assms(6)] .
  then show ?thesis
    using assms(1,2) by (simp add: res_validate_input body(1))
qed

theorem unlisted_model_is_rejected_witness:
  "res (validate_input scenario_defaults
          (answers 200 ''OK'' (model_list [model_entry ''other-model'']))
          scenario_record)
     = Inl WhisperModelNotFound"
proof -
  let ?ms = "[model_entry ''other-model'']"
  let ?body = "[(''object'', PStr ''list''), (''data'', PList ?ms)]"
  have a: "answers 200 ''OK'' (model_list ?ms) (dict_get scenario_record CONF_API_KEY)
      = Inr (reply 200 ''OK'' (model_list ?ms))"
    by (simp add: answers_def)
  have b: "status_code (reply 200 ''OK'' (model_list ?ms)) = 200"
    by (simp add: reply_def)
  have c: "json_body (reply 200 ''OK'' (model_list ?ms)) = Some (PDict ?body)"
    by (simp add: reply_def model_list_def)
  have d: "map_of ?body ''data'' = Some (PList ?ms)"
    by simp
  have e: "?ms \<noteq> []"
    by simp
  have f: "\<forall>m \<in> set ?ms. \<exists>e. m = PDict e
      \<and> \<not> py_eq (dict_get e ''id'') (dict_get scenario_record CONF_MODEL)"
    by (simp add: model_entry_def scenario_record_def CONF_MODEL_def dict_get_def
        dict_get_default_def)
  show ?thesis
    using unlisted_model_is_rejected [where rg = "answers 200 ''OK'' (model_list ?ms)"
        and d = scenario_record and r = "reply 200 ''OK'' (model_list ?ms)"
        and body = ?body and ms = ?ms and C = scenario_defaults, OF a b c d e f] .
qed

text \<open>
  When the response has status 200 and its \<^verbatim>\<open>data\<close> is a list in which an object
  with the record's model as \<^verbatim>\<open>id\<close> comes after objects with other ids, none of them
  equal to the last entry of the list, \<^verbatim>\<open>validate_input\<close> returns normally.
\<close>

theorem listed_model_is_accepted:
  assumes "rg (dict_get d CONF_API_KEY) = Inr r" and "status_code r = 200"
    and "json_body r = Some (PDict body)"
    and "map_of body ''data'' = Some (PList (pre @ PDict e # post))"
    and "\<forall>m \<in> set pre. \<exists>e'. m = PDict e'
            \<and> \<not> py_eq (dict_get e' ''id'') (dict_get d CONF_MODEL)
            \<and> \<not> py_eq m (last (pre @ PDict e # post))"
    and "py_eq (dict_get e ''id'') (dict_get d CONF_MODEL)"
  shows "res (validate_input C rg d) = Inr ()"
proof -
  note body = check_models_list [OF assms(3,4)]
  have "pre @ PDict e # post \<noteq> []"
    by simp
  then have "models_loop (pre @ PDict e # post) r (dict_get d CONF_MODEL) = Inr ()"
    using models_loop_match [OF assms(3) body(2) _ assms(5,6)] by blast
  then show ?thesis
    using assms(1,2) by (simp add: res_validate_input body(1))
qed

theorem listed_model_is_accepted_witness:
  "res (validate_input scenario_defaults
          (answers 200 ''OK''
             (model_list [model_entry ''distil-whisper-large-v3-en'',
                          model_entry ''whisper-large-v3'',
                          model_entry ''whisper-large-v3-turbo'']))
          scenario_record)
     = Inr ()"
proof -
  let ?pre = "[model_entry ''distil-whisper-large-v3-en'']"
  let ?e = "[(''id'', PStr ''whisper-large-v3''), (''object'', PStr ''model'')]"
  let ?post = "[model_entry ''whisper-large-v3-turbo'']"
  let ?ms = "[model_entry ''distil-whisper-large-v3-en'', model_entry ''whisper-large-v3'',
      model_entry ''whisper-large-v3-turbo'']"
  let ?body = "[(''object'', PStr ''list''), (''data'', PList ?ms)]"
  have a: "answers 200 ''OK'' (model_list ?ms) (dict_get scenario_record CONF_API_KEY)
      = Inr (reply 200 ''OK'' (model_list ?ms))"
    by (simp add: answers_def)
  have b: "status_code (reply 200 ''OK'' (model_list ?ms)) = 200"
    by (simp add: reply_def)
  have c: "json_body (reply 200 ''OK'' (model_list ?ms)) = Some (PDict ?body)"
    by (simp add: reply_def model_list_def)
  have d: "map_of ?body ''data'' = Some (PList (?pre @ PDict ?e # ?post))"
    by (simp add: model_entry_def)
  have f: "\<forall>m \<in> set ?pre. \<exists>e'. m = PDict e'
      \<and> \<not> py_eq (dict_get e' ''id'') (dict_get scenario_record CONF_MODEL)
      \<and> \<not> py_eq m (last (?pre @ PDict ?e # ?post))"
    by (simp add: model_entry_def scenario_record_def CONF_MODEL_def dict_get_def
        dict_get_default_def)
  have g: "py_eq (dict_get ?e ''id'') (dict_get scenario_record CONF_MODEL)"
    by (simp add: scenario_record_def CONF_MODEL_def dict_get_def dict_get_default_def)
  show ?thesis
    using listed_model_is_accepted [where rg = "answers 200 ''OK'' (model_list ?ms)"
        and d = scenario_record and r = "reply 200 ''OK'' (model_list ?ms)"
        and body = ?body and pre = ?pre and e = ?e and post = ?post
        and C = scenario_defaults, OF a b c d f g] .
qed

section \<open>Running the validation again\<close>

text \<open>
  A second run on the record that the first run left, against the same service, returns
  or raises as the first did.
\<close>

theorem second_run_same_result:
  "res (validate_input C rg (data (validate_input C rg d))) = res (validate_input C rg d)"
proof -
  have k: "dict_get (data (validate_input C rg d)) CONF_API_KEY = dict_get d CONF_API_KEY"
    and m: "dict_get (data (validate_input C rg d)) CONF_MODEL = dict_get d CONF_MODEL"
    using keys_distinct by (simp_all add: dict_get_data)
  show ?thesis
    unfolding res_validate_input [of C rg "data (validate_input C rg d)"] k m
      res_validate_input [of C rg d] ..
qed

end
